theory Spec2Isabelle
  imports Complex_Main "HOL-Library.Word"
begin

section \<open>Data model of app.py\<close>

text \<open>
  The values that \<open>json.loads\<close> produces: \<open>None\<close>, booleans, integers, floats, strings,
  lists and dictionaries. A dictionary is the association list of its items in insertion
  order; after \<open>json.loads\<close> its keys are distinct. A float is a finite rational or one of
  the three special values that \<open>json.loads\<close> accepts.
\<close>

datatype pyfloat = Finite rat | PosInf | NegInf | NaN

datatype json =
    JNull
  | JBool bool
  | JInt int
  | JFloat pyfloat
  | JStr string
  | JArr "json list"
  | JObj "(string \<times> json) list"

text \<open>Python's truth value of such a value, as tested by \<open>if prompt_json:\<close>.\<close>

fun truthy :: "json \<Rightarrow> bool" where
  "truthy JNull = False"
| "truthy (JBool b) = b"
| "truthy (JInt n) = (n \<noteq> 0)"
| "truthy (JFloat f) = (f \<noteq> Finite 0)"
| "truthy (JStr s) = (s \<noteq> [])"
| "truthy (JArr xs) = (xs \<noteq> [])"
| "truthy (JObj kvs) = (kvs \<noteq> [])"

fun py_type_name :: "json \<Rightarrow> string" where
  "py_type_name JNull = ''NoneType''"
| "py_type_name (JBool b) = ''bool''"
| "py_type_name (JInt n) = ''int''"
| "py_type_name (JFloat f) = ''float''"
| "py_type_name (JStr s) = ''str''"
| "py_type_name (JArr xs) = ''list''"
| "py_type_name (JObj kvs) = ''dict''"

text \<open>
  \<open>v.get(k, d)\<close>: only a dictionary has the method; on any other value the attribute
  lookup raises AttributeError (\<open>Inl\<close> carries the message).
\<close>

definition attribute_error :: "string \<Rightarrow> string \<Rightarrow> string" where
  "attribute_error type_name attr =
     CHR 0x27 # type_name @ CHR 0x27 # '' object has no attribute '' @ CHR 0x27 # attr @ [CHR 0x27]"

fun py_get :: "json \<Rightarrow> string \<Rightarrow> json \<Rightarrow> string + json" where
  "py_get (JObj kvs) k d = Inr (case map_of kvs k of Some v \<Rightarrow> v | None \<Rightarrow> d)"
| "py_get v k d = Inl (attribute_error (py_type_name v) ''get'')"

type_synonym bytes = "8 word list"

text \<open>A decoded PIL image. Such an object is always true in a condition.\<close>

datatype image = Image bytes

text \<open>One element of the \<open>contents\<close> list handed to the model.\<close>

datatype item = Text string | Img image | PyNone

fun opt_item :: "image option \<Rightarrow> item" where
  "opt_item None = PyNone"
| "opt_item (Some i) = Img i"

record request =
  model :: string
  contents :: "item list"
  response_mime_type :: "string option"

text \<open>The part of the model's response that the script reads.\<close>

record blob =
  blob_data :: "bytes option"

record part =
  inline_data :: "blob option"

record content =
  parts :: "part list option"

record candidate =
  cand_content :: "content option"

record response =
  resp_text :: "string option"
  candidates :: "candidate list option"

datatype client = Client string

text \<open>
  What the script does not define itself is a parameter: the model behind
  \<open>client.models.generate_content\<close> and the library functions \<open>json.loads\<close>,
  \<open>json.dumps(_, indent=2)\<close> and \<open>Image.open(io.BytesIO(_))\<close>. A raised exception is
  \<open>Inl\<close> with its message.
\<close>

record env =
  generate_content :: "client \<Rightarrow> request \<Rightarrow> string + response"
  json_loads :: "string option \<Rightarrow> string + json"
  json_dumps :: "json \<Rightarrow> string"
  image_open :: "bytes \<Rightarrow> string + image"

text \<open>What a run does to the outside: messages to the user, clients built, requests sent.\<close>

datatype event =
    StError string
  | ClientCreated string
  | GenerateContent client request

text \<open>\<open>st.session_state\<close>: an element of \<open>refined_images\<close> is (image, prompt, changes).\<close>

record session =
  generated_image :: "image option"
  current_prompt :: json
  refined_images :: "(image \<times> json \<times> json) list"

definition initial_session :: session where
  "initial_session = \<lparr>generated_image = None, current_prompt = JNull, refined_images = []\<rparr>"

text \<open>
  How a button handler ends: blocked by the missing key, with the last
  \<open>status.update(label, state)\<close>, or with an exception that nothing catches.
\<close>

datatype outcome = Blocked | Status string string | Raised string

section \<open>The three model operations\<close>

definition get_gemini_client :: "string \<Rightarrow> client" where
  "get_gemini_client api_key = Client api_key"

definition analysis_prompt :: "string \<Rightarrow> string" where
  "analysis_prompt example_structure =
     ''\<newline>    Analyze this image and provide a detailed, structured JSON description.\<newline>''
   @ ''    The output MUST be valid JSON.\<newline>''
   @ ''    Follow this structure exactly:\<newline>''
   @ ''    \<newline>''
   @ ''    '' @ example_structure @ ''\<newline>''
   @ ''    ''"

definition analysis_request :: "image \<Rightarrow> string \<Rightarrow> request" where
  "analysis_request image' example_structure =
     \<lparr>model = ''gemini-2.5-flash'',
      contents = [Text (analysis_prompt example_structure), Img image'],
      response_mime_type = Some ''application/json''\<rparr>"

definition analyze_image :: "env \<Rightarrow> client \<Rightarrow> image \<Rightarrow> string \<Rightarrow> json \<times> event list" where
  "analyze_image e client image' example_structure =
     (let req = analysis_request image' example_structure in
      case generate_content e client req of
        Inl msg \<Rightarrow> (JNull, [GenerateContent client req, StError (''Error analyzing image: '' @ msg)])
      | Inr response \<Rightarrow>
          (case json_loads e (resp_text response) of
             Inl msg \<Rightarrow> (JNull, [GenerateContent client req, StError (''Error analyzing image: '' @ msg)])
           | Inr v \<Rightarrow> (v, [GenerateContent client req])))"

definition comparison_prompt :: "env \<Rightarrow> json \<Rightarrow> string" where
  \<open>comparison_prompt e current_prompt_json =
     ''\<newline>    You are an expert image generation prompt engineer.\<newline>''
   @ ''    \<newline>''
   @ ''    Image 1 is the SOURCE image (the goal).\<newline>''
   @ ''    Image 2 is the GENERATED image (current attempt).\<newline>''
   @ ''    \<newline>''
   @ ''    The generated image was created using this JSON prompt:\<newline>''
   @ ''    '' @ json_dumps e current_prompt_json @ ''\<newline>''
   @ ''    \<newline>''
   @ ''    Compare the two images. Identify key differences where the generated image fails to capture the source image's details.\<newline>''
   @ ''    \<newline>''
   @ ''    Pay specific attention to:\<newline>''
   @ ''    1. **Relative Proportions**: Check the size of elements relative to each other (e.g., head size vs body, object size vs hand).\<newline>''
   @ ''    2. **Spatial Layout & Positioning**: Check the exact position of elements (left, right, above, below, center). Are they in the correct quadrant?\<newline>''
   @ ''    3. **Angles & Perspective**: Check the camera angle (high angle, low angle, eye level) and the angle of the subject/objects.\<newline>''
   @ ''    4. **Key Details**: Specific colors, textures, lighting, and background elements.\<newline>''
   @ ''\<newline>''
   @ ''    Your task is to REWRITE the JSON prompt to fix these issues and make the next generation look closer to the source.\<newline>''
   @ ''    \<newline>''
   @ ''    Return a JSON object with this structure:\<newline>''
   @ ''    {\<newline>''
   @ ''        "changes": ["list", "of", "key", "changes", "made"],\<newline>''
   @ ''        "new_prompt": { ... the full updated JSON prompt ... }\<newline>''
   @ ''    }\<newline>''
   @ ''    ''\<close>

definition comparison_request :: "env \<Rightarrow> image \<Rightarrow> image option \<Rightarrow> json \<Rightarrow> request" where
  "comparison_request e source_img generated_img current_prompt_json =
     \<lparr>model = ''gemini-2.5-flash'',
      contents = [Text (comparison_prompt e current_prompt_json), Img source_img, opt_item generated_img],
      response_mime_type = Some ''application/json''\<rparr>"

definition refine_prompt ::
  "env \<Rightarrow> client \<Rightarrow> image \<Rightarrow> image option \<Rightarrow> json \<Rightarrow> json \<times> event list" where
  "refine_prompt e client source_img generated_img current_prompt_json =
     (let req = comparison_request e source_img generated_img current_prompt_json in
      case generate_content e client req of
        Inl msg \<Rightarrow> (JNull, [GenerateContent client req, StError (''Error refining prompt: '' @ msg)])
      | Inr response \<Rightarrow>
          (case json_loads e (resp_text response) of
             Inl msg \<Rightarrow> (JNull, [GenerateContent client req, StError (''Error refining prompt: '' @ msg)])
           | Inr v \<Rightarrow> (v, [GenerateContent client req])))"

definition generation_prompt :: "env \<Rightarrow> json \<Rightarrow> string" where
  "generation_prompt e prompt_json =
     ''Generate a photorealistic image based on this detailed description:\<newline>\<newline>''
   @ json_dumps e prompt_json"

definition generation_request :: "env \<Rightarrow> json \<Rightarrow> image option \<Rightarrow> request" where
  "generation_request e prompt_json input_image =
     \<lparr>model = ''gemini-2.5-flash-image'',
      contents = [Text (generation_prompt e prompt_json)]
                 @ (case input_image of None \<Rightarrow> [] | Some i \<Rightarrow> [Img i]),
      response_mime_type = None\<rparr>"

text \<open>
  The loop over the parts of the first candidate: it returns at the first part that has
  inline data, whatever \<open>Image.open\<close> does with it.
\<close>

fun first_inline_data :: "part list \<Rightarrow> blob option" where
  "first_inline_data [] = None"
| "first_inline_data (p # ps) =
     (case inline_data p of Some b \<Rightarrow> Some b | None \<Rightarrow> first_inline_data ps)"

text \<open>
  What the body of the \<open>try\<close> block does with a response: \<open>Inl\<close> is an exception (caught
  by the handler around it), \<open>Inr None\<close> the final \<open>return None\<close>. \<open>io.BytesIO(None)\<close>
  is the empty buffer.
\<close>

definition image_of_response :: "env \<Rightarrow> response \<Rightarrow> string + image option" where
  "image_of_response e response =
     (case candidates response of
        None \<Rightarrow> Inr None
      | Some [] \<Rightarrow> Inr None
      | Some (c # cs) \<Rightarrow>
          (case cand_content c of
             None \<Rightarrow> Inl (attribute_error ''NoneType'' ''parts'')
           | Some ct \<Rightarrow>
               (case parts ct of
                  None \<Rightarrow> Inr None
                | Some [] \<Rightarrow> Inr None
                | Some (p # ps) \<Rightarrow>
                    (case first_inline_data (p # ps) of
                       None \<Rightarrow> Inr None
                     | Some b \<Rightarrow>
                         (case image_open e (case blob_data b of None \<Rightarrow> [] | Some d \<Rightarrow> d) of
                            Inl msg \<Rightarrow> Inl msg
                          | Inr img \<Rightarrow> Inr (Some img))))))"

definition generate_image_from_prompt ::
  "env \<Rightarrow> client \<Rightarrow> json \<Rightarrow> image option \<Rightarrow> image option \<times> event list" where
  "generate_image_from_prompt e client prompt_json input_image =
     (let req = generation_request e prompt_json input_image in
      case generate_content e client req of
        Inl msg \<Rightarrow> (None, [GenerateContent client req, StError (''Error generating image: '' @ msg)])
      | Inr response \<Rightarrow>
          (case image_of_response e response of
             Inl msg \<Rightarrow> (None, [GenerateContent client req, StError (''Error generating image: '' @ msg)])
           | Inr r \<Rightarrow> (r, [GenerateContent client req])))"

section \<open>The two button handlers\<close>

text \<open>
  The handler of the Remake button (it runs only with an uploaded image). \<open>prompt_file\<close>
  is the text of prompt\_example.txt, \<open>None\<close> when the file does not exist.
\<close>

definition load_example_structure :: "string option \<Rightarrow> string" where
  "load_example_structure prompt_file =
     (case prompt_file of
        Some t \<Rightarrow> t
      | None \<Rightarrow> ''Provide a detailed JSON description of the image.'')"

definition remake_button ::
  "env \<Rightarrow> string \<Rightarrow> string option \<Rightarrow> image \<Rightarrow> session \<Rightarrow> session \<times> event list \<times> outcome" where
  "remake_button e api_key prompt_file image' s =
     (if api_key = [] then
        (s, [StError ''Please provide a Gemini API Key in the sidebar.''], Blocked)
      else
        let client = get_gemini_client api_key;
            example_structure = load_example_structure prompt_file;
            (prompt_json, log1) = analyze_image e client image' example_structure
        in if truthy prompt_json then
             let s1 = s\<lparr>current_prompt := prompt_json\<rparr>;
                 (generated_image', log2) = generate_image_from_prompt e client prompt_json None
             in (case generated_image' of
                   Some g \<Rightarrow>
                     (s1\<lparr>generated_image := Some g, refined_images := []\<rparr>,
                      ClientCreated api_key # log1 @ log2,
                      Status ''Remake Complete!'' ''complete'')
                 | None \<Rightarrow>
                     (s1, ClientCreated api_key # log1 @ log2,
                      Status ''Generation Failed'' ''error''))
           else (s, ClientCreated api_key # log1, Status ''Analysis Failed'' ''error''))"

text \<open>
  The baseline of a refinement: the last element of \<open>refined_images\<close> when there is one,
  the session's generated image and current prompt otherwise.
\<close>

definition current_gen_img :: "session \<Rightarrow> image option" where
  "current_gen_img s =
     (if refined_images s \<noteq> [] then Some (fst (last (refined_images s)))
      else generated_image s)"

definition current_prompt_of :: "session \<Rightarrow> json" where
  "current_prompt_of s =
     (if refined_images s \<noteq> [] then fst (snd (last (refined_images s)))
      else current_prompt s)"

text \<open>
  The handler of the Refine button (it is shown only with an uploaded image and a
  generated image in the session).
\<close>

definition refine_button ::
  "env \<Rightarrow> string \<Rightarrow> image \<Rightarrow> session \<Rightarrow> session \<times> event list \<times> outcome" where
  "refine_button e api_key image' s =
     (if api_key = [] then
        (s, [StError ''Please provide a Gemini API Key.''], Blocked)
      else
        let client = get_gemini_client api_key;
            (refinement_result, log1) =
              refine_prompt e client image' (current_gen_img s) (current_prompt_of s)
        in if truthy refinement_result then
             (case py_get refinement_result ''new_prompt'' JNull of
                Inl msg \<Rightarrow> (s, ClientCreated api_key # log1, Raised msg)
              | Inr new_prompt \<Rightarrow>
                  (case py_get refinement_result ''changes'' (JArr []) of
                     Inl msg \<Rightarrow> (s, ClientCreated api_key # log1, Raised msg)
                   | Inr changes \<Rightarrow>
                       let (new_image, log2) = generate_image_from_prompt e client new_prompt None
                       in (case new_image of
                             Some g \<Rightarrow>
                               (s\<lparr>refined_images := refined_images s @ [(g, new_prompt, changes)]\<rparr>,
                                ClientCreated api_key # log1 @ log2,
                                Status ''Refinement Complete!'' ''complete'')
                           | None \<Rightarrow>
                               (s, ClientCreated api_key # log1 @ log2,
                                Status ''Generation Failed'' ''error''))))
           else (s, ClientCreated api_key # log1, Status ''Refinement Failed'' ''error''))"

section \<open>Views used by the properties\<close>

text \<open>The requests that a run sent to the model, in order.\<close>

fun requests_of :: "event list \<Rightarrow> request list" where
  "requests_of [] = []"
| "requests_of (GenerateContent c r # es) = r # requests_of es"
| "requests_of (ev # es) = requests_of es"

text \<open>
  The attempts that the page shows for a session: the generated image with the current
  prompt (it has no change list), then the refinements in the order they were appended.
\<close>

definition attempts :: "session \<Rightarrow> (image \<times> json \<times> json) list" where
  "attempts s =
     (case generated_image s of
        None \<Rightarrow> []
      | Some g \<Rightarrow> (g, current_prompt s, JArr []) # refined_images s)"

section \<open>Example runs\<close>

text \<open>
  Concrete responses, environments and sessions on which the properties below are
  evaluated. \<open>scripted_env\<close> answers the analysis request with the first value, the
  comparison request with the second and the image request with the third.
\<close>

definition text_response :: "string \<Rightarrow> response" where
  "text_response t = \<lparr>resp_text = Some t, candidates = None\<rparr>"

definition image_response :: "bytes \<Rightarrow> response" where
  "image_response b =
     \<lparr>resp_text = None,
      candidates = Some [\<lparr>cand_content = Some \<lparr>parts = Some
        [\<lparr>inline_data = None\<rparr>, \<lparr>inline_data = Some \<lparr>blob_data = Some b\<rparr>\<rparr>]\<rparr>\<rparr>]\<rparr>"

definition refusal_response :: response where
  "refusal_response =
     \<lparr>resp_text = Some ''no image'',
      candidates = Some [\<lparr>cand_content = Some \<lparr>parts = Some [\<lparr>inline_data = None\<rparr>]\<rparr>\<rparr>]\<rparr>"

definition scripted_env :: "(string + json) \<Rightarrow> (string + json) \<Rightarrow> (string + response) \<Rightarrow> env" where
  "scripted_env analysis comparison generation =
     \<lparr>generate_content =
        (\<lambda>c r. if model r = ''gemini-2.5-flash-image'' then generation
               else if length (contents r) = 2 then Inr (text_response ''analysis'')
               else Inr (text_response ''comparison'')),
      json_loads =
        (\<lambda>t. if t = Some ''analysis'' then analysis
             else if t = Some ''comparison'' then comparison
             else Inl ''Expecting value''),
      json_dumps = py_type_name,
      image_open = (\<lambda>b. if b = [] then Inl ''cannot identify image file'' else Inr (Image b))\<rparr>"

definition cat_description :: json where
  "cat_description = JObj [(''subject'', JStr ''cat''), (''bg'', JStr ''grass'')]"

definition dog_description :: json where
  "dog_description = JObj [(''subject'', JStr ''dog'')]"

definition revised_description :: json where
  "revised_description = JObj [(''subject'', JStr ''cat''), (''bg'', JStr ''grass''), (''angle'', JStr ''low'')]"

definition revision :: json where
  "revision = JObj [(''changes'', JArr [JStr ''fixed angle'']), (''new_prompt'', revised_description)]"

definition revision_without_prompt :: json where
  "revision_without_prompt = JObj [(''changes'', JArr [JStr ''fixed angle''])]"

definition working_env :: env where
  "working_env = scripted_env (Inr cat_description) (Inr revision) (Inr (image_response [5]))"

definition no_image_env :: env where
  "no_image_env = scripted_env (Inr dog_description) (Inr revision) (Inr refusal_response)"

definition no_analysis_env :: env where
  "no_analysis_env = scripted_env (Inl ''Expecting value'') (Inr revision) (Inr (image_response [5]))"

definition partial_revision_env :: env where
  "partial_revision_env =
     scripted_env (Inr cat_description) (Inr revision_without_prompt) (Inr (image_response [5]))"

definition no_comparison_env :: env where
  "no_comparison_env =
     scripted_env (Inr cat_description) (Inl ''Expecting value'') (Inr (image_response [5]))"

definition source_image :: image where "source_image = Image [1]"

definition session_one :: session where
  "session_one =
     \<lparr>generated_image = Some (Image [2]), current_prompt = cat_description, refined_images = []\<rparr>"

definition session_three :: session where
  "session_three =
     \<lparr>generated_image = Some (Image [2]), current_prompt = cat_description,
      refined_images =
        [(Image [3], revised_description, JArr [JStr ''fixed angle'']),
         (Image [4], dog_description, JArr [JStr ''new subject''])]\<rparr>"

section \<open>Properties\<close>

subsection \<open>Requests sent by the operations\<close>

lemma requests_of_append: "requests_of (xs @ ys) = requests_of xs @ requests_of ys"
  by (induction xs rule: requests_of.induct) simp_all

lemma requests_of_analyze_image:
  "requests_of (snd (analyze_image e c i ex)) = [analysis_request i ex]"
  by (simp add: analyze_image_def Let_def split: sum.splits)

lemma requests_of_refine_prompt:
  "requests_of (snd (refine_prompt e c i g p)) = [comparison_request e i g p]"
  by (simp add: refine_prompt_def Let_def split: sum.splits)

lemma requests_of_generate:
  "requests_of (snd (generate_image_from_prompt e c p inp)) = [generation_request e p inp]"
  by (simp add: generate_image_from_prompt_def Let_def split: sum.splits)

lemma model_comparison_request:
  "model (comparison_request e i g p) = ''gemini-2.5-flash''"
  by (simp add: comparison_request_def)

lemma model_generation_request:
  "model (generation_request e p inp) = ''gemini-2.5-flash-image''"
  by (simp add: generation_request_def)

subsection \<open>The handlers, case by case\<close>

lemma remake_button_unfold:
  assumes "api_key \<noteq> []"
  shows "remake_button e api_key prompt_file image' s =
     (let client = get_gemini_client api_key;
          a = analyze_image e client image' (load_example_structure prompt_file);
          g = generate_image_from_prompt e client (fst a) None
      in if truthy (fst a) then
           (case fst g of
              Some im \<Rightarrow>
                (s\<lparr>current_prompt := fst a, generated_image := Some im, refined_images := []\<rparr>,
                 ClientCreated api_key # snd a @ snd g, Status ''Remake Complete!'' ''complete'')
            | None \<Rightarrow>
                (s\<lparr>current_prompt := fst a\<rparr>,
                 ClientCreated api_key # snd a @ snd g, Status ''Generation Failed'' ''error''))
         else (s, ClientCreated api_key # snd a, Status ''Analysis Failed'' ''error''))"
  using assms
  by (simp add: remake_button_def Let_def case_prod_beta split: option.splits)

lemma refine_button_unfold:
  assumes "api_key \<noteq> []"
  shows "refine_button e api_key image' s =
     (let client = get_gemini_client api_key;
          c = refine_prompt e client image' (current_gen_img s) (current_prompt_of s)
      in case fst c of
           JObj kvs \<Rightarrow>
             if kvs = [] then (s, ClientCreated api_key # snd c, Status ''Refinement Failed'' ''error'')
             else
               let new_prompt = (case map_of kvs ''new_prompt'' of Some v \<Rightarrow> v | None \<Rightarrow> JNull);
                   changes = (case map_of kvs ''changes'' of Some v \<Rightarrow> v | None \<Rightarrow> JArr []);
                   g = generate_image_from_prompt e client new_prompt None
               in (case fst g of
                     Some im \<Rightarrow>
                       (s\<lparr>refined_images := refined_images s @ [(im, new_prompt, changes)]\<rparr>,
                        ClientCreated api_key # snd c @ snd g,
                        Status ''Refinement Complete!'' ''complete'')
                   | None \<Rightarrow>
                       (s, ClientCreated api_key # snd c @ snd g, Status ''Generation Failed'' ''error''))
         | v \<Rightarrow>
             if truthy v then
               (s, ClientCreated api_key # snd c, Raised (attribute_error (py_type_name v) ''get''))
             else (s, ClientCreated api_key # snd c, Status ''Refinement Failed'' ''error''))"
  using assms
  by (cases "fst (refine_prompt e (get_gemini_client api_key) image' (current_gen_img s) (current_prompt_of s))")
     (simp_all add: refine_button_def Let_def case_prod_beta split: option.splits)

lemma refine_requests:
  assumes "api_key \<noteq> []"
  shows "requests_of (fst (snd (refine_button e api_key image' s)))
         = comparison_request e image' (current_gen_img s) (current_prompt_of s)
           # (case fst (refine_prompt e (get_gemini_client api_key) image'
                          (current_gen_img s) (current_prompt_of s)) of
                JObj kvs \<Rightarrow>
                  if kvs = [] then []
                  else [generation_request e
                          (case map_of kvs ''new_prompt'' of Some v \<Rightarrow> v | None \<Rightarrow> JNull) None]
              | v \<Rightarrow> [])"
  using assms requests_of_refine_prompt requests_of_generate
  by (cases "fst (refine_prompt e (get_gemini_client api_key) image' (current_gen_img s) (current_prompt_of s))")
     (simp_all add: refine_button_def Let_def case_prod_beta requests_of_append split: option.splits)

lemma refine_comparison_requests:
  assumes "api_key \<noteq> []"
  shows "filter (\<lambda>r. model r = ''gemini-2.5-flash'')
           (requests_of (fst (snd (refine_button e api_key image' s))))
         = [comparison_request e image' (current_gen_img s) (current_prompt_of s)]"
  using refine_requests[OF assms, of e image' s]
  by (simp add: model_comparison_request model_generation_request split: json.split)

text \<open>
  The failures that leave the session as it was: a refinement that does not complete,
  and a remake whose analysis gives no true value.
\<close>

lemma refine_button_session:
  "fst (refine_button e api_key image' s) = s
   \<or> snd (snd (refine_button e api_key image' s)) = Status ''Refinement Complete!'' ''complete''"
proof (cases "api_key = []")
  case True
  then show ?thesis by (simp add: refine_button_def)
next
  case False
  then show ?thesis
    by (cases "fst (refine_prompt e (get_gemini_client api_key) image'
                     (current_gen_img s) (current_prompt_of s))")
       (simp_all add: refine_button_unfold Let_def split: option.splits)
qed

lemma remake_button_analysis_failure:
  assumes "\<not> truthy (fst (analyze_image e (get_gemini_client api_key) image'
                            (load_example_structure prompt_file)))"
  shows "fst (remake_button e api_key prompt_file image' s) = s"
proof (cases "api_key = []")
  case True
  then show ?thesis by (simp add: remake_button_def)
next
  case False
  with assms show ?thesis by (simp add: remake_button_unfold Let_def)
qed

subsection \<open>The missing key\<close>

text \<open>
  C9. With an empty API key both handlers stop at once: the session is returned as it
  was, the only effect is the message to the user, so no client is built and no request
  is sent.
\<close>

theorem missing_key_blocks_action:
  "remake_button e [] prompt_file image' s
     = (s, [StError ''Please provide a Gemini API Key in the sidebar.''], Blocked)
   \<and> refine_button e [] image' s
     = (s, [StError ''Please provide a Gemini API Key.''], Blocked)"
  by (simp add: remake_button_def refine_button_def)

subsection \<open>The baseline of a refinement\<close>

text \<open>
  C1. A refine action with a key sends exactly one comparison request. When
  \<open>refined_images\<close> ends with the attempt \<open>(g, d, ch)\<close>, that request carries the prompt
  built from \<open>d\<close>, the source image and \<open>g\<close>, whatever stands before the last attempt; when
  \<open>refined_images\<close> is empty it carries the prompt built from the session's current prompt,
  the source image and the session's generated image.
\<close>

theorem refine_compares_latest_attempt:
  assumes "api_key \<noteq> []"
  shows "(\<forall>hs g d ch. refined_images s = hs @ [(g, d, ch)] \<longrightarrow>
            map contents (filter (\<lambda>r. model r = ''gemini-2.5-flash'')
                            (requests_of (fst (snd (refine_button e api_key image' s)))))
            = [[Text (comparison_prompt e d), Img image', Img g]])
       \<and> (\<forall>g0. refined_images s = [] \<and> generated_image s = Some g0 \<longrightarrow>
            map contents (filter (\<lambda>r. model r = ''gemini-2.5-flash'')
                            (requests_of (fst (snd (refine_button e api_key image' s)))))
            = [[Text (comparison_prompt e (current_prompt s)), Img image', Img g0]])"
  by (simp add: refine_comparison_requests[OF assms] comparison_request_def
        current_gen_img_def current_prompt_of_def)

theorem refine_compares_latest_attempt_witness:
  "map contents (filter (\<lambda>r. model r = ''gemini-2.5-flash'')
     (requests_of (fst (snd (refine_button working_env ''key'' source_image session_three)))))
   = [[Text (comparison_prompt working_env dog_description), Img source_image, Img (Image [4])]]
   \<and> map contents (filter (\<lambda>r. model r = ''gemini-2.5-flash'')
     (requests_of (fst (snd (refine_button working_env ''key'' source_image session_one)))))
   = [[Text (comparison_prompt working_env cat_description), Img source_image, Img (Image [2])]]"
proof -
  have k: "''key'' \<noteq> []" by simp
  have h3: "refined_images session_three =
      [(Image [3], revised_description, JArr [JStr ''fixed angle''])]
      @ [(Image [4], dog_description, JArr [JStr ''new subject''])]"
    by (simp add: session_three_def)
  have h1: "refined_images session_one = [] \<and> generated_image session_one = Some (Image [2])"
    by (simp add: session_one_def)
  have c1: "current_prompt session_one = cat_description"
    by (simp add: session_one_def)
  from refine_compares_latest_attempt[OF k, of session_three _ source_image] h3
  have a: "map contents (filter (\<lambda>r. model r = ''gemini-2.5-flash'')
     (requests_of (fst (snd (refine_button working_env ''key'' source_image session_three)))))
   = [[Text (comparison_prompt working_env dog_description), Img source_image, Img (Image [4])]]"
    by blast
  from refine_compares_latest_attempt[OF k, of session_one _ source_image] h1 c1
  have b: "map contents (filter (\<lambda>r. model r = ''gemini-2.5-flash'')
     (requests_of (fst (snd (refine_button working_env ''key'' source_image session_one)))))
   = [[Text (comparison_prompt working_env cat_description), Img source_image, Img (Image [2])]]"
    by metis
  from a b show ?thesis by simp
qed


subsection \<open>A run in which every call succeeds\<close>

lemma working_env_analysis:
  "analyze_image working_env c i ex = (cat_description, [GenerateContent c (analysis_request i ex)])"
  by (simp add: analyze_image_def working_env_def scripted_env_def analysis_request_def
        text_response_def)

lemma working_env_comparison:
  "refine_prompt working_env c i g p = (revision, [GenerateContent c (comparison_request working_env i g p)])"
  by (simp add: refine_prompt_def working_env_def scripted_env_def comparison_request_def
        text_response_def)

lemma working_env_generation:
  "generate_image_from_prompt working_env c p inp
     = (Some (Image [5]), [GenerateContent c (generation_request working_env p inp)])"
  by (simp add: generate_image_from_prompt_def working_env_def scripted_env_def
        generation_request_def image_of_response_def image_response_def)

subsection \<open>Successful remake and successful refinement\<close>

text \<open>
  C5. A remake with a key ends with ``Remake Complete!'' exactly when the analysis gave a
  true value \<open>d\<close> and the generation from \<open>d\<close> gave an image \<open>g\<close>. The session is then
  the generated image \<open>g\<close>, the current prompt \<open>d\<close> and no refinement, whatever it held
  before: the one attempt \<open>(g, d, [])\<close>.
\<close>

theorem successful_remake_has_one_attempt:
  assumes "api_key \<noteq> []"
    and "fst (analyze_image e (get_gemini_client api_key) image' (load_example_structure prompt_file)) = d"
    and "fst (generate_image_from_prompt e (get_gemini_client api_key) d None) = r"
  shows "(snd (snd (remake_button e api_key prompt_file image' s)) = Status ''Remake Complete!'' ''complete''
            \<longleftrightarrow> truthy d \<and> r \<noteq> None)
       \<and> (\<forall>g. truthy d \<and> r = Some g \<longrightarrow>
             fst (remake_button e api_key prompt_file image' s)
               = \<lparr>generated_image = Some g, current_prompt = d, refined_images = []\<rparr>
             \<and> attempts (fst (remake_button e api_key prompt_file image' s)) = [(g, d, JArr [])])"
  using assms
  by (auto simp: remake_button_unfold Let_def attempts_def split: option.splits)

theorem successful_remake_has_one_attempt_witness:
  "snd (snd (remake_button working_env ''key'' None source_image session_three))
     = Status ''Remake Complete!'' ''complete''
   \<and> fst (remake_button working_env ''key'' None source_image session_three)
     = \<lparr>generated_image = Some (Image [5]), current_prompt = cat_description, refined_images = []\<rparr>
   \<and> attempts (fst (remake_button working_env ''key'' None source_image session_three))
     = [(Image [5], cat_description, JArr [])]"
proof -
  have k: "''key'' \<noteq> []" by simp
  have a: "fst (analyze_image working_env (get_gemini_client ''key'') source_image
                  (load_example_structure None)) = cat_description"
    by (simp add: working_env_analysis)
  have g: "fst (generate_image_from_prompt working_env (get_gemini_client ''key'') cat_description None)
             = Some (Image [5])"
    by (simp add: working_env_generation)
  have t: "truthy cat_description" by (simp add: cat_description_def)
  from successful_remake_has_one_attempt[OF k a g, of session_three] t
  show ?thesis by (simp add: attempts_def)
qed

text \<open>
  C6. A refinement with a key ends with ``Refinement Complete!'' exactly when the
  comparison gave a non-empty dictionary and the generation from its \<open>new_prompt\<close> gave an
  image. Then \<open>refined_images\<close> is the old list followed by one attempt: that image, the
  dictionary's \<open>new_prompt\<close> and its \<open>changes\<close> (the empty list when the key is absent);
  the generated image and the current prompt of the session stay.
\<close>

theorem successful_refinement_appends_one:
  assumes "api_key \<noteq> []"
    and "fst (refine_prompt e (get_gemini_client api_key) image' (current_gen_img s) (current_prompt_of s)) = c"
  shows "(snd (snd (refine_button e api_key image' s)) = Status ''Refinement Complete!'' ''complete''
            \<longleftrightarrow> (\<exists>kvs g. c = JObj kvs \<and> kvs \<noteq> [] \<and>
                   fst (generate_image_from_prompt e (get_gemini_client api_key)
                          (case map_of kvs ''new_prompt'' of Some v \<Rightarrow> v | None \<Rightarrow> JNull) None) = Some g))
       \<and> (\<forall>kvs g. c = JObj kvs \<and> kvs \<noteq> [] \<and>
                   fst (generate_image_from_prompt e (get_gemini_client api_key)
                          (case map_of kvs ''new_prompt'' of Some v \<Rightarrow> v | None \<Rightarrow> JNull) None) = Some g
             \<longrightarrow> refined_images (fst (refine_button e api_key image' s))
                   = refined_images s
                     @ [(g, case map_of kvs ''new_prompt'' of Some v \<Rightarrow> v | None \<Rightarrow> JNull,
                            case map_of kvs ''changes'' of Some v \<Rightarrow> v | None \<Rightarrow> JArr [])]
               \<and> length (refined_images (fst (refine_button e api_key image' s)))
                   = Suc (length (refined_images s))
               \<and> generated_image (fst (refine_button e api_key image' s)) = generated_image s
               \<and> current_prompt (fst (refine_button e api_key image' s)) = current_prompt s)"
  using assms
  by (cases c) (auto simp: refine_button_unfold Let_def split: option.splits)

theorem successful_refinement_appends_one_witness:
  "snd (snd (refine_button working_env ''key'' source_image session_one))
     = Status ''Refinement Complete!'' ''complete''
   \<and> refined_images (fst (refine_button working_env ''key'' source_image session_one))
     = [(Image [5], revised_description, JArr [JStr ''fixed angle''])]
   \<and> length (refined_images (fst (refine_button working_env ''key'' source_image session_one))) = 1"
proof -
  have k: "''key'' \<noteq> []" by simp
  have c: "fst (refine_prompt working_env (get_gemini_client ''key'') source_image
             (current_gen_img session_one) (current_prompt_of session_one)) = revision"
    by (simp add: working_env_comparison)
  have r: "revision = JObj [(''changes'', JArr [JStr ''fixed angle'']), (''new_prompt'', revised_description)]"
    by (simp add: revision_def)
  have g: "fst (generate_image_from_prompt working_env (get_gemini_client ''key'')
         (case map_of [(''changes'', JArr [JStr ''fixed angle'']), (''new_prompt'', revised_description)]
                 ''new_prompt'' of Some v \<Rightarrow> v | None \<Rightarrow> JNull) None) = Some (Image [5])"
    by (simp add: working_env_generation)
  have e: "refined_images session_one = []" by (simp add: session_one_def)
  have ne: "[(''changes'', JArr [JStr ''fixed angle'']), (''new_prompt'', revised_description)] \<noteq> []"
    by simp
  note T = successful_refinement_appends_one[OF k c]
  from T r g ne
  have s1: "snd (snd (refine_button working_env ''key'' source_image session_one))
              = Status ''Refinement Complete!'' ''complete''"
    by blast
  from T[THEN conjunct2, rule_format,
         of "[(''changes'', JArr [JStr ''fixed angle'']), (''new_prompt'', revised_description)]"
            "Image [5]"] r g ne e
  have s2: "refined_images (fst (refine_button working_env ''key'' source_image session_one))
              = [(Image [5], revised_description, JArr [JStr ''fixed angle''])]"
    by simp
  from s1 s2 show ?thesis by simp
qed

subsection \<open>Generation during a refinement\<close>

text \<open>
  C7. Every request that a refine action sends to the image model has as its contents
  the single text built from the \<open>new_prompt\<close> of the comparison result: no image, and so
  not the previously generated one, is part of it.
\<close>

theorem refinement_generates_from_text_only:
  "\<forall>r \<in> set (requests_of (fst (snd (refine_button e api_key image' s)))).
     model r = ''gemini-2.5-flash-image'' \<longrightarrow>
       (\<exists>kvs. fst (refine_prompt e (get_gemini_client api_key) image'
                     (current_gen_img s) (current_prompt_of s)) = JObj kvs
            \<and> contents r
                = [Text (generation_prompt e
                     (case map_of kvs ''new_prompt'' of Some v \<Rightarrow> v | None \<Rightarrow> JNull))])
       \<and> (\<forall>i. Img i \<notin> set (contents r))"
proof (cases "api_key = []")
  case True
  then show ?thesis by (simp add: refine_button_def)
next
  case False
  show ?thesis
    using refine_requests[OF False, of e image' s]
    by (cases "fst (refine_prompt e (get_gemini_client api_key) image'
                     (current_gen_img s) (current_prompt_of s))")
       (auto simp: model_comparison_request generation_request_def)
qed

theorem refinement_generates_from_text_only_witness:
  "requests_of (fst (snd (refine_button working_env ''key'' source_image session_three)))
     = [comparison_request working_env source_image (Some (Image [4])) dog_description,
        generation_request working_env revised_description None]
   \<and> contents (generation_request working_env revised_description None)
     = [Text (generation_prompt working_env revised_description)]
   \<and> Img (Image [4]) \<notin> set (contents (generation_request working_env revised_description None))"
proof -
  have k: "''key'' \<noteq> []" by simp
  have rq: "requests_of (fst (snd (refine_button working_env ''key'' source_image session_three)))
     = [comparison_request working_env source_image (Some (Image [4])) dog_description,
        generation_request working_env revised_description None]"
    by (simp add: refine_requests[OF k] working_env_comparison revision_def session_three_def
          current_gen_img_def current_prompt_of_def)
  have m: "model (generation_request working_env revised_description None) = ''gemini-2.5-flash-image''"
    by (simp add: model_generation_request)
  have "generation_request working_env revised_description None
          \<in> set (requests_of (fst (snd (refine_button working_env ''key'' source_image session_three))))"
    by (simp add: rq)
  with refinement_generates_from_text_only[of working_env "''key''" source_image session_three] m
  have "Img (Image [4]) \<notin> set (contents (generation_request working_env revised_description None))"
    by blast
  with rq show ?thesis by (simp add: generation_request_def)
qed

subsection \<open>When a remake resets the refinements\<close>

text \<open>
  C4, as the code has it. A remake empties \<open>refined_images\<close> exactly when it ends with
  ``Remake Complete!''; a remake that is blocked or fails leaves the list as it was.
\<close>

theorem remake_resets_refinements_only_on_success:
  "refined_images (fst (remake_button e api_key prompt_file image' s)) =
     (if snd (snd (remake_button e api_key prompt_file image' s)) = Status ''Remake Complete!'' ''complete''
      then [] else refined_images s)"
proof (cases "api_key = []")
  case True
  then show ?thesis by (simp add: remake_button_def)
next
  case False
  then show ?thesis
    by (simp add: remake_button_unfold Let_def split: option.splits)
qed

lemma no_analysis_env_analysis:
  "fst (analyze_image no_analysis_env c i ex) = JNull"
  by (simp add: analyze_image_def no_analysis_env_def scripted_env_def analysis_request_def
        text_response_def)

text \<open>
  C4 as stated fails: with two refinements in the session, a remake whose analysis fails
  keeps both.
\<close>

theorem failed_remake_keeps_refinements:
  "snd (snd (remake_button no_analysis_env ''key'' None source_image session_three))
     = Status ''Analysis Failed'' ''error''
   \<and> refined_images (fst (remake_button no_analysis_env ''key'' None source_image session_three))
     = [(Image [3], revised_description, JArr [JStr ''fixed angle'']),
        (Image [4], dog_description, JArr [JStr ''new subject''])]"
  by (simp add: remake_button_unfold Let_def no_analysis_env_analysis session_three_def)


subsection \<open>A response without image data\<close>

lemma first_inline_data_None:
  "(\<And>p. p \<in> set ps \<Longrightarrow> inline_data p = None) \<Longrightarrow> first_inline_data ps = None"
  by (induction ps) simp_all

lemma image_of_response_no_data:
  assumes "\<forall>cs c ct ps pt. candidates response = Some cs \<and> c \<in> set cs \<and> cand_content c = Some ct
             \<and> parts ct = Some ps \<and> pt \<in> set ps \<longrightarrow> inline_data pt = None"
  shows "image_of_response e response \<noteq> Inr (Some img)"
proof (cases "candidates response")
  case None
  then show ?thesis by (simp add: image_of_response_def)
next
  case (Some cs)
  show ?thesis
  proof (cases cs)
    case Nil
    with Some show ?thesis by (simp add: image_of_response_def)
  next
    case (Cons c cs')
    show ?thesis
    proof (cases "cand_content c")
      case None
      with Some Cons show ?thesis by (simp add: image_of_response_def)
    next
      case ct: (Some ct)
      show ?thesis
      proof (cases "parts ct")
        case None
        with Some Cons ct show ?thesis by (simp add: image_of_response_def)
      next
        case ps: (Some ps)
        have "\<And>pt. pt \<in> set ps \<Longrightarrow> inline_data pt = None"
          using assms Some Cons ct ps by auto
        then have "first_inline_data ps = None"
          by (rule first_inline_data_None)
        with Some Cons ct ps show ?thesis
          by (cases ps) (simp_all add: image_of_response_def del: first_inline_data.simps)
      qed
    qed
  qed
qed

lemma generate_no_data:
  assumes "generate_content e client (generation_request e p inp) = Inr response"
    and "\<forall>cs c ct ps pt. candidates response = Some cs \<and> c \<in> set cs \<and> cand_content c = Some ct
             \<and> parts ct = Some ps \<and> pt \<in> set ps \<longrightarrow> inline_data pt = None"
  shows "fst (generate_image_from_prompt e client p inp) = None"
proof (cases "image_of_response e response")
  case (Inl msg)
  with assms(1) show ?thesis by (simp add: generate_image_from_prompt_def)
next
  case (Inr r)
  have "image_of_response e response \<noteq> Inr (Some img)" for img
    using assms(2) by (rule image_of_response_no_data)
  with Inr have "r = None"
    by (cases r) auto
  with Inr assms(1) show ?thesis by (simp add: generate_image_from_prompt_def)
qed

text \<open>
  C8. When the response to a generation request has no part with inline data in any
  candidate (no candidates, no parts, or parts without inline data), the generator
  returns \<open>None\<close>. A remake that makes this call ends with ``Generation Failed'' and
  keeps the generated image and the refinements of the session; a refinement that makes
  it ends with ``Generation Failed'' and returns the session as it was.
\<close>

theorem no_inline_data_is_failure:
  assumes "generate_content e client (generation_request e p inp) = Inr response"
    and "\<forall>cs c ct ps pt. candidates response = Some cs \<and> c \<in> set cs \<and> cand_content c = Some ct
             \<and> parts ct = Some ps \<and> pt \<in> set ps \<longrightarrow> inline_data pt = None"
  shows "fst (generate_image_from_prompt e client p inp) = None
       \<and> (\<forall>api_key prompt_file image' s.
            api_key \<noteq> [] \<and> client = get_gemini_client api_key \<and> inp = None
            \<and> fst (analyze_image e client image' (load_example_structure prompt_file)) = p \<and> truthy p
            \<longrightarrow> snd (snd (remake_button e api_key prompt_file image' s))
                  = Status ''Generation Failed'' ''error''
              \<and> generated_image (fst (remake_button e api_key prompt_file image' s)) = generated_image s
              \<and> refined_images (fst (remake_button e api_key prompt_file image' s)) = refined_images s)
       \<and> (\<forall>api_key image' s kvs.
            api_key \<noteq> [] \<and> client = get_gemini_client api_key \<and> inp = None
            \<and> fst (refine_prompt e client image' (current_gen_img s) (current_prompt_of s)) = JObj kvs
            \<and> kvs \<noteq> [] \<and> (case map_of kvs ''new_prompt'' of Some v \<Rightarrow> v | None \<Rightarrow> JNull) = p
            \<longrightarrow> snd (snd (refine_button e api_key image' s)) = Status ''Generation Failed'' ''error''
              \<and> fst (refine_button e api_key image' s) = s)"
proof -
  have g: "fst (generate_image_from_prompt e client p inp) = None"
    using assms by (rule generate_no_data)
  show ?thesis
    using g by (auto simp: remake_button_unfold refine_button_unfold Let_def)
qed

lemma no_image_env_analysis:
  "fst (analyze_image no_image_env c i ex) = dog_description"
  by (simp add: analyze_image_def no_image_env_def scripted_env_def analysis_request_def
        text_response_def)

lemma no_image_env_generation:
  "generate_content no_image_env c (generation_request no_image_env p inp) = Inr refusal_response"
  by (simp add: no_image_env_def scripted_env_def generation_request_def)

theorem no_inline_data_is_failure_witness:
  "fst (generate_image_from_prompt no_image_env (get_gemini_client ''key'') dog_description None) = None
   \<and> snd (snd (remake_button no_image_env ''key'' None source_image initial_session))
       = Status ''Generation Failed'' ''error''
   \<and> generated_image (fst (remake_button no_image_env ''key'' None source_image initial_session)) = None
   \<and> refined_images (fst (remake_button no_image_env ''key'' None source_image initial_session)) = []"
proof -
  have r: "generate_content no_image_env (get_gemini_client ''key'')
             (generation_request no_image_env dog_description None) = Inr refusal_response"
    by (rule no_image_env_generation)
  have n: "\<forall>cs c ct ps pt. candidates refusal_response = Some cs \<and> c \<in> set cs
             \<and> cand_content c = Some ct \<and> parts ct = Some ps \<and> pt \<in> set ps \<longrightarrow> inline_data pt = None"
    by (auto simp: refusal_response_def)
  have k: "''key'' \<noteq> []" by simp
  have a: "fst (analyze_image no_image_env (get_gemini_client ''key'') source_image
                  (load_example_structure None)) = dog_description"
    by (rule no_image_env_analysis)
  have t: "truthy dog_description" by (simp add: dog_description_def)
  note T = no_inline_data_is_failure[OF r n]
  from T have g: "fst (generate_image_from_prompt no_image_env (get_gemini_client ''key'')
                         dog_description None) = None"
    by blast
  from T[THEN conjunct2, THEN conjunct1, rule_format, of "''key''" source_image None initial_session]
    k a t
  show ?thesis using g by (simp add: initial_session_def)
qed


lemma no_image_env_generate:
  "fst (generate_image_from_prompt no_image_env c p inp) = None"
  by (simp add: generate_image_from_prompt_def no_image_env_generation image_of_response_def
        refusal_response_def)

subsection \<open>A remake whose generation fails\<close>

text \<open>
  C10. When the analysis of a remake gives a true value \<open>d\<close> and the generation from it
  gives no image, the session afterwards is the old one with \<open>current_prompt\<close> replaced by
  \<open>d\<close>: the generated image and the refinements are the old ones. A following refinement
  on a session without refinements then compares the old generated image under the new
  prompt \<open>d\<close>.
\<close>

theorem failed_generation_keeps_new_prompt:
  assumes "api_key \<noteq> []"
    and "fst (analyze_image e (get_gemini_client api_key) image' (load_example_structure prompt_file)) = d"
    and "truthy d"
    and "fst (generate_image_from_prompt e (get_gemini_client api_key) d None) = None"
  shows "fst (remake_button e api_key prompt_file image' s) = s\<lparr>current_prompt := d\<rparr>
       \<and> snd (snd (remake_button e api_key prompt_file image' s)) = Status ''Generation Failed'' ''error''
       \<and> (\<forall>e' key' g0. key' \<noteq> [] \<and> refined_images s = [] \<and> generated_image s = Some g0 \<longrightarrow>
            map contents (filter (\<lambda>r. model r = ''gemini-2.5-flash'')
              (requests_of (fst (snd (refine_button e' key' image'
                                        (fst (remake_button e api_key prompt_file image' s)))))))
            = [[Text (comparison_prompt e' d), Img image', Img g0]])"
proof -
  have st: "fst (remake_button e api_key prompt_file image' s) = s\<lparr>current_prompt := d\<rparr>"
    and out: "snd (snd (remake_button e api_key prompt_file image' s)) = Status ''Generation Failed'' ''error''"
    using assms by (simp_all add: remake_button_unfold Let_def)
  have "map contents (filter (\<lambda>r. model r = ''gemini-2.5-flash'')
              (requests_of (fst (snd (refine_button e' key' image' (s\<lparr>current_prompt := d\<rparr>))))))
            = [[Text (comparison_prompt e' d), Img image', Img g0]]"
    if "key' \<noteq> []" "refined_images s = []" "generated_image s = Some g0" for e' key' g0
    using that
    by (simp add: refine_comparison_requests comparison_request_def current_gen_img_def
          current_prompt_of_def)
  with st out show ?thesis by simp
qed

theorem failed_generation_keeps_new_prompt_witness:
  "fst (remake_button no_image_env ''key'' None source_image session_one)
     = \<lparr>generated_image = Some (Image [2]), current_prompt = dog_description, refined_images = []\<rparr>
   \<and> current_prompt session_one = cat_description
   \<and> snd (snd (remake_button no_image_env ''key'' None source_image session_one))
     = Status ''Generation Failed'' ''error''
   \<and> map contents (filter (\<lambda>r. model r = ''gemini-2.5-flash'')
        (requests_of (fst (snd (refine_button working_env ''key'' source_image
           (fst (remake_button no_image_env ''key'' None source_image session_one)))))))
     = [[Text (comparison_prompt working_env dog_description), Img source_image, Img (Image [2])]]"
proof -
  have k: "''key'' \<noteq> []" by simp
  have a: "fst (analyze_image no_image_env (get_gemini_client ''key'') source_image
                  (load_example_structure None)) = dog_description"
    by (rule no_image_env_analysis)
  have t: "truthy dog_description" by (simp add: dog_description_def)
  have g: "fst (generate_image_from_prompt no_image_env (get_gemini_client ''key'') dog_description None) = None"
    by (rule no_image_env_generate)
  note T = failed_generation_keeps_new_prompt[OF k a t g, of session_one]
  have h: "''key'' \<noteq> [] \<and> refined_images session_one = []
             \<and> generated_image session_one = Some (Image [2])"
    by (simp add: session_one_def)
  from T[THEN conjunct2, THEN conjunct2, rule_format, of "''key''" "Image [2]" working_env] h
  have r: "map contents (filter (\<lambda>r. model r = ''gemini-2.5-flash'')
        (requests_of (fst (snd (refine_button working_env ''key'' source_image
           (fst (remake_button no_image_env ''key'' None source_image session_one)))))))
     = [[Text (comparison_prompt working_env dog_description), Img source_image, Img (Image [2])]]"
    by simp
  from T r show ?thesis by (simp add: session_one_def)
qed

subsection \<open>The session at the failing call\<close>

lemma no_comparison_env_comparison:
  "fst (refine_prompt no_comparison_env c i g p) = JNull"
  by (simp add: refine_prompt_def no_comparison_env_def scripted_env_def comparison_request_def
        text_response_def)

lemma no_image_env_comparison:
  "fst (refine_prompt no_image_env c i g p) = revision"
  by (simp add: refine_prompt_def no_image_env_def scripted_env_def comparison_request_def
        text_response_def)

text \<open>
  C2. Each failure leaves the session as it was immediately before the call that failed.
  In a remake, \<open>analyze_image\<close> is called on the session \<open>s\<close> the handler started with;
  when it returns \<open>None\<close> the handler ends with \<open>s\<close>. The generator is called after the
  handler has stored the analysed prompt \<open>d\<close>, on \<open>s1 = s\<lparr>current_prompt := d\<rparr>\<close> of
  \<open>remake_button\<close>; when it returns \<open>None\<close> the handler ends with that session, and so
  with the same attempts. In a refinement nothing is stored before either call: when
  \<open>refine_prompt\<close> returns \<open>None\<close>, or the generator does, the handler ends with \<open>s\<close>.
\<close>

theorem failure_keeps_session_before_call:
  assumes "api_key \<noteq> []"
  shows "(fst (analyze_image e (get_gemini_client api_key) image' (load_example_structure prompt_file))
            = JNull
          \<longrightarrow> fst (remake_button e api_key prompt_file image' s) = s)
       \<and> (\<forall>d. fst (analyze_image e (get_gemini_client api_key) image'
                      (load_example_structure prompt_file)) = d
              \<and> truthy d
              \<and> fst (generate_image_from_prompt e (get_gemini_client api_key) d None) = None
          \<longrightarrow> fst (remake_button e api_key prompt_file image' s) = s\<lparr>current_prompt := d\<rparr>
            \<and> attempts (fst (remake_button e api_key prompt_file image' s))
                = attempts (s\<lparr>current_prompt := d\<rparr>))
       \<and> (fst (refine_prompt e (get_gemini_client api_key) image'
                  (current_gen_img s) (current_prompt_of s)) = JNull
          \<longrightarrow> fst (refine_button e api_key image' s) = s)
       \<and> (\<forall>kvs. fst (refine_prompt e (get_gemini_client api_key) image'
                        (current_gen_img s) (current_prompt_of s)) = JObj kvs
              \<and> kvs \<noteq> []
              \<and> fst (generate_image_from_prompt e (get_gemini_client api_key)
                        (case map_of kvs ''new_prompt'' of Some v \<Rightarrow> v | None \<Rightarrow> JNull) None) = None
          \<longrightarrow> fst (refine_button e api_key image' s) = s)"
proof -
  have a: "fst (analyze_image e (get_gemini_client api_key) image' (load_example_structure prompt_file))
            = JNull
          \<longrightarrow> fst (remake_button e api_key prompt_file image' s) = s"
    using assms by (simp add: remake_button_unfold Let_def)
  have b: "fst (remake_button e api_key prompt_file image' s) = s\<lparr>current_prompt := d\<rparr>"
    if "fst (analyze_image e (get_gemini_client api_key) image'
              (load_example_structure prompt_file)) = d"
      and "truthy d"
      and "fst (generate_image_from_prompt e (get_gemini_client api_key) d None) = None" for d
    using assms that by (simp add: remake_button_unfold Let_def)
  have c: "fst (refine_prompt e (get_gemini_client api_key) image'
                  (current_gen_img s) (current_prompt_of s)) = JNull
          \<longrightarrow> fst (refine_button e api_key image' s) = s"
    using assms by (simp add: refine_button_unfold Let_def)
  have d: "fst (refine_button e api_key image' s) = s"
    if "fst (refine_prompt e (get_gemini_client api_key) image'
              (current_gen_img s) (current_prompt_of s)) = JObj kvs"
      and "kvs \<noteq> []"
      and "fst (generate_image_from_prompt e (get_gemini_client api_key)
                 (case map_of kvs ''new_prompt'' of Some v \<Rightarrow> v | None \<Rightarrow> JNull) None) = None" for kvs
    using assms that by (simp add: refine_button_unfold Let_def)
  from a b c d show ?thesis by simp
qed

theorem failure_keeps_session_before_call_witness:
  "fst (remake_button no_analysis_env ''key'' None source_image session_three) = session_three
   \<and> fst (remake_button no_image_env ''key'' None source_image session_three)
       = session_three\<lparr>current_prompt := dog_description\<rparr>
   \<and> fst (refine_button no_comparison_env ''key'' source_image session_three) = session_three
   \<and> fst (refine_button no_image_env ''key'' source_image session_three) = session_three"
proof -
  have k: "''key'' \<noteq> []" by simp
  have a: "fst (analyze_image no_analysis_env (get_gemini_client ''key'') source_image
                  (load_example_structure None)) = JNull"
    by (rule no_analysis_env_analysis)
  from failure_keeps_session_before_call[OF k, of no_analysis_env source_image None session_three] a
  have 1: "fst (remake_button no_analysis_env ''key'' None source_image session_three) = session_three"
    by blast
  have b: "fst (analyze_image no_image_env (get_gemini_client ''key'') source_image
                  (load_example_structure None)) = dog_description
           \<and> truthy dog_description
           \<and> fst (generate_image_from_prompt no_image_env (get_gemini_client ''key'')
                     dog_description None) = None"
    by (simp add: no_image_env_analysis no_image_env_generate dog_description_def)
  from failure_keeps_session_before_call[OF k, of no_image_env source_image None session_three,
         THEN conjunct2, THEN conjunct1, rule_format, OF b]
  have 2: "fst (remake_button no_image_env ''key'' None source_image session_three)
             = session_three\<lparr>current_prompt := dog_description\<rparr>"
    by simp
  have c: "fst (refine_prompt no_comparison_env (get_gemini_client ''key'') source_image
                  (current_gen_img session_three) (current_prompt_of session_three)) = JNull"
    by (rule no_comparison_env_comparison)
  from failure_keeps_session_before_call[OF k, of no_comparison_env source_image None session_three] c
  have 3: "fst (refine_button no_comparison_env ''key'' source_image session_three) = session_three"
    by blast
  have d: "fst (refine_prompt no_image_env (get_gemini_client ''key'') source_image
                  (current_gen_img session_three) (current_prompt_of session_three))
             = JObj [(''changes'', JArr [JStr ''fixed angle'']), (''new_prompt'', revised_description)]
           \<and> [(''changes'', JArr [JStr ''fixed angle'']), (''new_prompt'', revised_description)] \<noteq> []
           \<and> fst (generate_image_from_prompt no_image_env (get_gemini_client ''key'')
                (case map_of [(''changes'', JArr [JStr ''fixed angle'']),
                              (''new_prompt'', revised_description)] ''new_prompt'' of
                   Some v \<Rightarrow> v | None \<Rightarrow> JNull) None) = None"
    by (simp add: no_image_env_comparison no_image_env_generate revision_def)
  from failure_keeps_session_before_call[OF k, of no_image_env source_image None session_three,
         THEN conjunct2, THEN conjunct2, THEN conjunct2, rule_format, OF d]
  have 4: "fst (refine_button no_image_env ''key'' source_image session_three) = session_three"
    by simp
  from 1 2 3 4 show ?thesis by simp
qed

subsection \<open>A comparison result without \<open>new_prompt\<close>\<close>

lemma partial_revision_env_comparison:
  "fst (refine_prompt partial_revision_env c i g p) = revision_without_prompt"
  by (simp add: refine_prompt_def partial_revision_env_def scripted_env_def comparison_request_def
        text_response_def)

lemma partial_revision_env_generate:
  "fst (generate_image_from_prompt partial_revision_env c p inp) = Some (Image [5])"
  by (simp add: generate_image_from_prompt_def partial_revision_env_def scripted_env_def
        generation_request_def image_of_response_def image_response_def)

text \<open>
  C3 as stated fails: the comparison returns a dictionary with \<open>changes\<close> only; the
  refinement sends a generation request built from \<open>None\<close>, ends with
  ``Refinement Complete!'' and appends an attempt whose prompt is \<open>None\<close>.
\<close>

theorem missing_new_prompt_is_not_failure:
  "py_get revision_without_prompt ''new_prompt'' JNull = Inr JNull
   \<and> snd (snd (refine_button partial_revision_env ''key'' source_image session_one))
     = Status ''Refinement Complete!'' ''complete''
   \<and> refined_images (fst (refine_button partial_revision_env ''key'' source_image session_one))
     = [(Image [5], JNull, JArr [JStr ''fixed angle''])]
   \<and> requests_of (fst (snd (refine_button partial_revision_env ''key'' source_image session_one)))
     = [comparison_request partial_revision_env source_image (Some (Image [2])) cat_description,
        generation_request partial_revision_env JNull None]"
proof -
  have k: "''key'' \<noteq> []" by simp
  have 1: "py_get revision_without_prompt ''new_prompt'' JNull = Inr JNull"
    by (simp add: revision_without_prompt_def)
  have 2: "snd (snd (refine_button partial_revision_env ''key'' source_image session_one))
     = Status ''Refinement Complete!'' ''complete''"
    and 3: "refined_images (fst (refine_button partial_revision_env ''key'' source_image session_one))
     = [(Image [5], JNull, JArr [JStr ''fixed angle''])]"
    by (simp_all add: refine_button_unfold Let_def partial_revision_env_comparison
          partial_revision_env_generate revision_without_prompt_def session_one_def)
  have 4: "requests_of (fst (snd (refine_button partial_revision_env ''key'' source_image session_one)))
     = [comparison_request partial_revision_env source_image (Some (Image [2])) cat_description,
        generation_request partial_revision_env JNull None]"
    by (simp add: refine_requests[OF k] partial_revision_env_comparison revision_without_prompt_def
          session_one_def current_gen_img_def current_prompt_of_def)
  from 1 2 3 4 show ?thesis by simp
qed

text \<open>
  C3, as the code has it. When the comparison result is a non-empty dictionary without
  \<open>new_prompt\<close>, the refinement sends the comparison request and then a generation request
  built from \<open>None\<close>. If that generation gives an image, the attempt (image, \<open>None\<close>,
  changes) is appended and the step completes, where changes is the dictionary's
  \<open>changes\<close> or the empty list when that key is absent too; if it gives no image, the
  session is unchanged and the step ends with ``Generation Failed''.
\<close>

theorem missing_new_prompt_generates_from_none:
  assumes "api_key \<noteq> []"
    and "fst (refine_prompt e (get_gemini_client api_key) image' (current_gen_img s) (current_prompt_of s))
           = JObj kvs"
    and "kvs \<noteq> []"
    and "map_of kvs ''new_prompt'' = None"
  shows "requests_of (fst (snd (refine_button e api_key image' s)))
           = [comparison_request e image' (current_gen_img s) (current_prompt_of s),
              generation_request e JNull None]
       \<and> (\<forall>g. fst (generate_image_from_prompt e (get_gemini_client api_key) JNull None) = Some g \<longrightarrow>
             fst (refine_button e api_key image' s)
               = s\<lparr>refined_images := refined_images s
                      @ [(g, JNull, case map_of kvs ''changes'' of Some v \<Rightarrow> v | None \<Rightarrow> JArr [])]\<rparr>
             \<and> snd (snd (refine_button e api_key image' s)) = Status ''Refinement Complete!'' ''complete'')
       \<and> (fst (generate_image_from_prompt e (get_gemini_client api_key) JNull None) = None \<longrightarrow>
             fst (refine_button e api_key image' s) = s
             \<and> snd (snd (refine_button e api_key image' s)) = Status ''Generation Failed'' ''error'')"
proof -
  have "requests_of (fst (snd (refine_button e api_key image' s)))
           = [comparison_request e image' (current_gen_img s) (current_prompt_of s),
              generation_request e JNull None]"
    using assms by (simp add: refine_requests)
  moreover have "\<forall>g. fst (generate_image_from_prompt e (get_gemini_client api_key) JNull None) = Some g \<longrightarrow>
             fst (refine_button e api_key image' s)
               = s\<lparr>refined_images := refined_images s
                      @ [(g, JNull, case map_of kvs ''changes'' of Some v \<Rightarrow> v | None \<Rightarrow> JArr [])]\<rparr>
             \<and> snd (snd (refine_button e api_key image' s)) = Status ''Refinement Complete!'' ''complete''"
    using assms by (simp add: refine_button_unfold Let_def)
  moreover have "fst (generate_image_from_prompt e (get_gemini_client api_key) JNull None) = None \<longrightarrow>
             fst (refine_button e api_key image' s) = s
             \<and> snd (snd (refine_button e api_key image' s)) = Status ''Generation Failed'' ''error''"
    using assms by (simp add: refine_button_unfold Let_def)
  ultimately show ?thesis by blast
qed

theorem missing_new_prompt_generates_from_none_witness:
  "requests_of (fst (snd (refine_button partial_revision_env ''key'' source_image session_three)))
     = [comparison_request partial_revision_env source_image (Some (Image [4])) dog_description,
        generation_request partial_revision_env JNull None]
   \<and> refined_images (fst (refine_button partial_revision_env ''key'' source_image session_three))
     = refined_images session_three @ [(Image [5], JNull, JArr [JStr ''fixed angle''])]
   \<and> snd (snd (refine_button partial_revision_env ''key'' source_image session_three))
     = Status ''Refinement Complete!'' ''complete''"
proof -
  have k: "''key'' \<noteq> []" by simp
  have c: "fst (refine_prompt partial_revision_env (get_gemini_client ''key'') source_image
             (current_gen_img session_three) (current_prompt_of session_three))
           = JObj [(''changes'', JArr [JStr ''fixed angle''])]"
    by (simp add: partial_revision_env_comparison revision_without_prompt_def)
  have ne: "[(''changes'', JArr [JStr ''fixed angle''])] \<noteq> []" by simp
  have m: "map_of [(''changes'', JArr [JStr ''fixed angle''])] ''new_prompt'' = None" by simp
  have g: "fst (generate_image_from_prompt partial_revision_env (get_gemini_client ''key'') JNull None)
             = Some (Image [5])"
    by (rule partial_revision_env_generate)
  note T = missing_new_prompt_generates_from_none[OF k c ne m]
  from T[THEN conjunct2, THEN conjunct1, rule_format, OF g] T[THEN conjunct1]
  show ?thesis
    by (simp add: session_three_def current_gen_img_def current_prompt_of_def)
qed

end
